theory Spec2Isabelle
  imports Main "HOL-Library.Sublist"
begin

section \<open>Runes, strings and the Unicode tables\<close>

text \<open>
  The engine works on Go runes (\<open>int32\<close> code points).  Runes are only compared and,
  for a backreference digit, decremented by \<open>'0'\<close>, so they are modelled as integers.
  A Go \<open>string\<close> is a sequence of bytes; \<open>string(runes)\<close> encodes in UTF-8 and
  \<open>[]rune(s)\<close> decodes it, which matters because the capture slots are strings whose
  \<open>len\<close> counts bytes.
\<close>

type_synonym rune = int
type_synonym byte = nat
type_synonym gostring = "byte list"

text \<open>\<open>unicode.IsDigit\<close> and \<open>unicode.IsLetter\<close> are tables of the Go standard library.
  They are parameters of the model.\<close>

record unicode =
  IsDigit :: "rune \<Rightarrow> bool"
  IsLetter :: "rune \<Rightarrow> bool"

abbreviation (input) ch_nl :: rune where "ch_nl \<equiv> 10"
abbreviation (input) ch_dollar :: rune where "ch_dollar \<equiv> 36"
abbreviation (input) ch_lparen :: rune where "ch_lparen \<equiv> 40"
abbreviation (input) ch_rparen :: rune where "ch_rparen \<equiv> 41"
abbreviation (input) ch_plus :: rune where "ch_plus \<equiv> 43"
abbreviation (input) ch_dot :: rune where "ch_dot \<equiv> 46"
abbreviation (input) ch_0 :: rune where "ch_0 \<equiv> 48"
abbreviation (input) ch_1 :: rune where "ch_1 \<equiv> 49"
abbreviation (input) ch_9 :: rune where "ch_9 \<equiv> 57"
abbreviation (input) ch_quest :: rune where "ch_quest \<equiv> 63"
abbreviation (input) ch_lbrack :: rune where "ch_lbrack \<equiv> 91"
abbreviation (input) ch_backslash :: rune where "ch_backslash \<equiv> 92"
abbreviation (input) ch_rbrack :: rune where "ch_rbrack \<equiv> 93"
abbreviation (input) ch_caret :: rune where "ch_caret \<equiv> 94"
abbreviation (input) ch_underscore :: rune where "ch_underscore \<equiv> 95"
abbreviation (input) ch_d :: rune where "ch_d \<equiv> 100"
abbreviation (input) ch_w :: rune where "ch_w \<equiv> 119"
abbreviation (input) ch_bar :: rune where "ch_bar \<equiv> 124"

text \<open>\<open>string(r)\<close> for one rune: UTF-8, with U+FFFD for a value that is no scalar value.\<close>

definition encodeRune :: "rune \<Rightarrow> gostring" where
  "encodeRune r =
     (if r < 0 \<or> r > 1114111 \<or> (55296 \<le> r \<and> r \<le> 57343) then [239, 191, 189]
      else if r < 128 then [nat r]
      else if r < 2048 then [192 + nat (r div 64), 128 + nat (r mod 64)]
      else if r < 65536 then
        [224 + nat (r div 4096), 128 + nat ((r div 64) mod 64), 128 + nat (r mod 64)]
      else
        [240 + nat (r div 262144), 128 + nat ((r div 4096) mod 64),
         128 + nat ((r div 64) mod 64), 128 + nat (r mod 64)])"

definition string_of_runes :: "rune list \<Rightarrow> gostring" where
  "string_of_runes rs = concat (map encodeRune rs)"

definition isCont :: "byte \<Rightarrow> bool" where
  "isCont b = (128 \<le> b \<and> b \<le> 191)"

text \<open>One step of \<open>[]rune(s)\<close>: the rune at the head of a non-empty string and its width.
  An ill-formed sequence gives U+FFFD of width 1.\<close>

fun decodeRune :: "gostring \<Rightarrow> rune \<times> nat" where
  "decodeRune [] = (65533, 1)"
| "decodeRune (b0 # bs) =
     (if b0 < 128 then (int b0, 1)
      else if 194 \<le> b0 \<and> b0 \<le> 223 then
        (case bs of
           b1 # _ \<Rightarrow>
             if isCont b1 then (int ((b0 - 192) * 64 + (b1 - 128)), 2) else (65533, 1)
         | _ \<Rightarrow> (65533, 1))
      else if 224 \<le> b0 \<and> b0 \<le> 239 then
        (case bs of
           b1 # b2 # _ \<Rightarrow>
             if (if b0 = 224 then 160 else 128) \<le> b1 \<and> b1 \<le> (if b0 = 237 then 159 else 191)
                \<and> isCont b2
             then (int ((b0 - 224) * 4096 + (b1 - 128) * 64 + (b2 - 128)), 3)
             else (65533, 1)
         | _ \<Rightarrow> (65533, 1))
      else if 240 \<le> b0 \<and> b0 \<le> 244 then
        (case bs of
           b1 # b2 # b3 # _ \<Rightarrow>
             if (if b0 = 240 then 144 else 128) \<le> b1 \<and> b1 \<le> (if b0 = 244 then 143 else 191)
                \<and> isCont b2 \<and> isCont b3
             then (int ((b0 - 240) * 262144 + (b1 - 128) * 4096 + (b2 - 128) * 64 + (b3 - 128)), 4)
             else (65533, 1)
         | _ \<Rightarrow> (65533, 1))
      else (65533, 1))"

declare decodeRune.simps [simp del]

text \<open>\<open>[]rune(s)\<close>: decode until the string is used up.\<close>

function runes_of_string :: "gostring \<Rightarrow> rune list" where
  "runes_of_string [] = []"
| "runes_of_string (b # bs) =
     fst (decodeRune (b # bs)) # runes_of_string (drop (snd (decodeRune (b # bs)) - 1) bs)"
  by pat_completeness auto
termination
  by (relation "measure length") simp_all

section \<open>The compiled pattern\<close>

text \<open>
  \<open>PatternElement\<close> is the Go interface with its ten implementations, \<open>Pattern\<close> the
  struct.  A group holds a \<open>*Pattern\<close> which the compiler never leaves nil.
\<close>

datatype PatternElement =
    LiteralMatcher rune
  | DigitMatcher
  | AlphanumericMatcher
  | CharacterSetMatcher "rune list" bool
  | OneOrMoreMatcher PatternElement
  | ZeroOrOneMatcher PatternElement
  | WildcardMatcher
  | AlternationMatcher "Pattern list"
  | GroupMatcher (groupIndex: int) (groupPattern: Pattern)
  | BackReferenceMatcher int
and Pattern =
    Pattern (elements: "PatternElement list") (startAnchor: bool) (endAnchor: bool)
      (groupCount: nat)

text \<open>The method \<open>Match(r rune) bool\<close> of each implementation.\<close>

fun Match_rune :: "unicode \<Rightarrow> PatternElement \<Rightarrow> rune \<Rightarrow> bool" where
  "Match_rune U (LiteralMatcher c) r = (c = r)"
| "Match_rune U DigitMatcher r = IsDigit U r"
| "Match_rune U AlphanumericMatcher r = (IsLetter U r \<or> IsDigit U r \<or> r = ch_underscore)"
| "Match_rune U (CharacterSetMatcher chars negated) r =
     (if r \<in> set chars then \<not> negated else negated)"
| "Match_rune U (OneOrMoreMatcher m) r = Match_rune U m r"
| "Match_rune U (ZeroOrOneMatcher m) r = Match_rune U m r"
| "Match_rune U WildcardMatcher r = (r \<noteq> ch_nl)"
| "Match_rune U (AlternationMatcher alts) r = False"
| "Match_rune U (GroupMatcher i p) r = False"
| "Match_rune U (BackReferenceMatcher i) r = False"

section \<open>The compiler\<close>

datatype CompileError = MissingCloseParen

text \<open>
  The scanning loops walk the rune slice by an index that only moves forward, so each
  loop is a recursion on the part of the slice from the index on.

  \<open>findClose rs depth\<close> is the inner loop of the group case, started just after the
  opening parenthesis with \<open>depth = 1\<close>: it returns the runes before the parenthesis that
  brings the depth to zero and the runes after it, or \<open>None\<close> when the slice ends with
  \<open>depth > 0\<close>.
\<close>

fun findClose :: "rune list \<Rightarrow> nat \<Rightarrow> (rune list \<times> rune list) option" where
  "findClose [] depth = None"
| "findClose (r # rs) depth =
     (if r = ch_lparen then map_option (apfst ((#) r)) (findClose rs (depth + 1))
      else if r = ch_rparen then
        (if depth - 1 > 0 then map_option (apfst ((#) r)) (findClose rs (depth - 1))
         else Some ([], rs))
      else map_option (apfst ((#) r)) (findClose rs depth))"

text \<open>The quantifier check that follows every atom except a backreference:
  \<open>rest\<close> is \<open>runes[i+1:]\<close>.\<close>

definition quantify :: "PatternElement \<Rightarrow> rune list \<Rightarrow> PatternElement \<times> rune list" where
  "quantify element rest =
     (case rest of
        [] \<Rightarrow> (element, [])
      | q # rest' \<Rightarrow>
          if q = ch_plus then (OneOrMoreMatcher element, rest')
          else if q = ch_quest then (ZeroOrOneMatcher element, rest')
          else (element, rest))"

text \<open>
  The loop of \<open>parseAlternatives\<close> cuts its text at every \<open>|\<close> met at depth zero and
  compiles each piece as soon as it is cut.  The cutting does not depend on what the
  pieces compile to, so it is modelled by \<open>splitAlternatives\<close> (the pieces, in order;
  \<open>cur\<close> is \<open>runes[start:i]\<close>) followed by \<open>parseAlternativesFrom\<close> (compile the pieces in
  order, stop at the first error).  The depth is a Go \<open>int\<close> and may go below zero.
\<close>

fun splitAlternatives :: "rune list \<Rightarrow> int \<Rightarrow> rune list \<Rightarrow> rune list list" where
  "splitAlternatives [] depth cur = (if cur = [] then [] else [cur])"
| "splitAlternatives (r # rs) depth cur =
     (if r = ch_lparen then splitAlternatives rs (depth + 1) (cur @ [r])
      else if r = ch_rparen then splitAlternatives rs (depth - 1) (cur @ [r])
      else if r = ch_bar then
        (if depth = 0 then cur # splitAlternatives rs depth []
         else splitAlternatives rs depth (cur @ [r]))
      else splitAlternatives rs depth (cur @ [r]))"

lemma findClose_length:
  "findClose rs d = Some (body, rest) \<Longrightarrow> length rs = length body + 1 + length rest"
  by (induction rs arbitrary: d body rest) (auto split: if_splits)

lemma splitAlternatives_size:
  "sum_list (map (\<lambda>b. Suc (length b)) (splitAlternatives rs d cur))
     \<le> Suc (length rs + length cur)"
  by (induction rs d cur rule: splitAlternatives.induct) auto


text \<open>
  \<open>parsePatternInternal\<close> strips the anchors and runs its scanning loop, here
  \<open>parseElements\<close>, whose argument is \<open>runes[i:]\<close>; the group counter \<open>*groupCounter\<close>
  is passed in and returned.  The elements are appended in scanning order, so the loop
  returns them as a list built from the front.  A group's text is handed to
  \<open>parseAlternatives\<close>, which calls \<open>parsePatternInternal\<close> again on every piece; the
  text passes through \<open>string(runes[start:i])\<close> and back through \<open>[]rune(pattern)\<close>,
  which gives the same runes.
\<close>

definition stripStartAnchor :: "rune list \<Rightarrow> rune list" where
  "stripStartAnchor runes = (if runes \<noteq> [] \<and> hd runes = ch_caret then tl runes else runes)"

definition stripEndAnchor :: "rune list \<Rightarrow> rune list" where
  "stripEndAnchor runes = (if runes \<noteq> [] \<and> last runes = ch_dollar then butlast runes else runes)"

text \<open>The inner pattern of a group from its compiled alternatives, with
  \<open>inner.groupCount = *groupCounter\<close> applied.\<close>

definition groupInner :: "Pattern list \<Rightarrow> nat \<Rightarrow> Pattern" where
  "groupInner alts counter =
     (let inner = (if length alts = 1 then hd alts
                   else Pattern [AlternationMatcher alts] False False 0)
      in Pattern (elements inner) (startAnchor inner) (endAnchor inner) counter)"

definition escapeAtom :: "rune \<Rightarrow> PatternElement" where
  "escapeAtom x =
     (if x = ch_d then DigitMatcher
      else if x = ch_w then AlphanumericMatcher
      else LiteralMatcher x)"

text \<open>The character set case, \<open>rs\<close> being the runes after \<open>[\<close>: whether it is negated, its
  members, and the runes after the closing \<open>]\<close> (none when the set is not closed).\<close>

definition setNegated :: "rune list \<Rightarrow> bool" where
  "setNegated rs = (rs \<noteq> [] \<and> hd rs = ch_caret)"

definition setChars :: "rune list \<Rightarrow> rune list" where
  "setChars rs = takeWhile (\<lambda>c. c \<noteq> ch_rbrack) (if setNegated rs then tl rs else rs)"

definition setRest :: "rune list \<Rightarrow> rune list" where
  "setRest rs = drop 1 (dropWhile (\<lambda>c. c \<noteq> ch_rbrack) (if setNegated rs then tl rs else rs))"

lemma quantify_length: "length (snd (quantify e rest)) \<le> length rest"
  by (simp add: quantify_def split: list.splits)

lemma setRest_length: "length (setRest rs) \<le> length rs"
proof -
  have "length (dropWhile P xs) \<le> length xs" for P and xs :: "rune list"
    by (induction xs) auto
  from this [of "\<lambda>c. c \<noteq> ch_rbrack" "if setNegated rs then tl rs else rs"]
  show ?thesis by (auto simp: setRest_def)
qed

lemma strip_length: "length (stripEndAnchor (stripStartAnchor runes)) \<le> length runes"
  by (simp add: stripEndAnchor_def stripStartAnchor_def)

lemma findClose_shorter:
  "findClose rs d = Some found \<Longrightarrow> length (fst found) + length (snd found) < length rs"
  using findClose_length [of rs d "fst found" "snd found"] by simp

lemma quantify_shorter: "length (snd (quantify e rest)) < Suc (length rest)"
  using quantify_length [of e rest] by simp

function parseElements :: "rune list \<Rightarrow> nat \<Rightarrow> CompileError + (PatternElement list \<times> nat)"
  and parseAlternativesFrom :: "rune list list \<Rightarrow> nat \<Rightarrow> CompileError + (Pattern list \<times> nat)"
  and parsePatternInternal :: "rune list \<Rightarrow> nat \<Rightarrow> CompileError + (Pattern \<times> nat)"
where
  "parseElements [] counter = Inr ([], counter)"
| "parseElements (r # rs) counter =
     (if r = ch_lparen then
        (case findClose rs 1 of
           None \<Rightarrow> Inl MissingCloseParen
         | Some found \<Rightarrow>
             (case parseAlternativesFrom (splitAlternatives (fst found) 0 []) (counter + 1) of
                Inl err \<Rightarrow> Inl err
              | Inr parsed \<Rightarrow>
                  (let element =
                         GroupMatcher (int (counter + 1)) (groupInner (fst parsed) (snd parsed));
                       qr = quantify element (snd found)
                   in case parseElements (snd qr) (snd parsed) of
                        Inl err \<Rightarrow> Inl err
                      | Inr later \<Rightarrow> Inr (fst qr # fst later, snd later))))
      else if r = ch_dot then
        (let qr = quantify WildcardMatcher rs
         in case parseElements (snd qr) counter of
              Inl err \<Rightarrow> Inl err
            | Inr later \<Rightarrow> Inr (fst qr # fst later, snd later))
      else if r = ch_backslash then
        (if rs = [] then Inr ([], counter)
         else if ch_1 \<le> hd rs \<and> hd rs \<le> ch_9 then
           (case parseElements (tl rs) counter of
              Inl err \<Rightarrow> Inl err
            | Inr later \<Rightarrow> Inr (BackReferenceMatcher (hd rs - ch_0) # fst later, snd later))
         else
           (let qr = quantify (escapeAtom (hd rs)) (tl rs)
            in case parseElements (snd qr) counter of
                 Inl err \<Rightarrow> Inl err
               | Inr later \<Rightarrow> Inr (fst qr # fst later, snd later)))
      else if r = ch_lbrack then
        (let qr = quantify (CharacterSetMatcher (setChars rs) (setNegated rs)) (setRest rs)
         in case parseElements (snd qr) counter of
              Inl err \<Rightarrow> Inl err
            | Inr later \<Rightarrow> Inr (fst qr # fst later, snd later))
      else
        (let qr = quantify (LiteralMatcher r) rs
         in case parseElements (snd qr) counter of
              Inl err \<Rightarrow> Inl err
            | Inr later \<Rightarrow> Inr (fst qr # fst later, snd later)))"
| "parseAlternativesFrom [] counter = Inr ([], counter)"
| "parseAlternativesFrom (piece # pieces) counter =
     (case parsePatternInternal piece counter of
        Inl err \<Rightarrow> Inl err
      | Inr first \<Rightarrow>
          (case parseAlternativesFrom pieces (snd first) of
             Inl err \<Rightarrow> Inl err
           | Inr later \<Rightarrow> Inr (fst first # fst later, snd later)))"
| "parsePatternInternal runes counter =
     (case parseElements (stripEndAnchor (stripStartAnchor runes)) counter of
        Inl err \<Rightarrow> Inl err
      | Inr parsed \<Rightarrow>
          Inr (Pattern (fst parsed)
                 (runes \<noteq> [] \<and> hd runes = ch_caret)
                 (stripStartAnchor runes \<noteq> [] \<and> last (stripStartAnchor runes) = ch_dollar)
                 (snd parsed), snd parsed))"
  by pat_completeness auto

termination
proof (relation "measure (\<lambda>x. case x of
          Inl (rs, c) \<Rightarrow> 2 * length rs
        | Inr (Inl (pieces, c)) \<Rightarrow> 2 * sum_list (map (\<lambda>b. Suc (length b)) pieces)
        | Inr (Inr (rs, c)) \<Rightarrow> 2 * length rs + 1)", goal_cases)
  case 1
  show ?case by simp
next
  case (2 r rs counter found)
  with findClose_shorter [of rs 1 found] splitAlternatives_size [of "fst found" 0 "[]"]
  show ?case by simp
next
  case (3 r rs counter found parsed element qr)
  with findClose_shorter [of rs 1 found] quantify_shorter [of element "snd found"]
  show ?case by simp
next
  case (4 r rs counter qr)
  with quantify_shorter [of WildcardMatcher rs] show ?case by simp
next
  case (5 r rs counter)
  then show ?case by (cases rs) simp_all
next
  case (6 r rs counter qr)
  with quantify_shorter [of "escapeAtom (hd rs)" "tl rs"] show ?case
    by (cases rs) simp_all
next
  case (7 r rs counter qr)
  with quantify_shorter [of "CharacterSetMatcher (setChars rs) (setNegated rs)" "setRest rs"]
    setRest_length [of rs]
  show ?case by simp
next
  case (8 r rs counter qr)
  with quantify_shorter [of "LiteralMatcher r" rs] show ?case by simp
next
  case (9 piece pieces counter)
  show ?case by simp
next
  case (10 piece pieces counter first)
  show ?case by simp
next
  case (11 runes counter)
  with strip_length [of runes] show ?case by simp
qed

declare parseElements.simps [simp del] parseAlternativesFrom.simps [simp del]
  parsePatternInternal.simps [simp del]

definition ParsePattern :: "rune list \<Rightarrow> CompileError + Pattern" where
  "ParsePattern pattern =
     (case parsePatternInternal pattern 0 of
        Inl err \<Rightarrow> Inl err
      | Inr parsed \<Rightarrow>
          Inr (Pattern (elements (fst parsed)) (startAnchor (fst parsed))
                 (endAnchor (fst parsed)) (snd parsed)))"

section \<open>Capture slices\<close>

text \<open>
  The capture state is a Go slice \<open>[]string\<close>.  The matcher writes into it in place,
  hands it to callees and copies it with \<open>make\<close> and \<open>copy\<close>, so which slices share
  an array decides what a caller sees.  The store maps an address to the array at that
  address; a slice value is the address of its array (every capture slice spans its
  whole array) or nil.
\<close>

type_synonym heap = "gostring list list"

datatype slice = NilSlice | SliceAt nat

definition contents :: "heap \<Rightarrow> slice \<Rightarrow> gostring list" where
  "contents h s =
     (case s of NilSlice \<Rightarrow> [] | SliceAt a \<Rightarrow> if a < length h then h ! a else [])"

definition len :: "heap \<Rightarrow> slice \<Rightarrow> nat" where
  "len h s = length (contents h s)"

text \<open>\<open>make([]string, n)\<close>: a fresh array of empty strings.\<close>

definition make_strings :: "heap \<Rightarrow> nat \<Rightarrow> slice \<times> heap" where
  "make_strings h n = (SliceAt (length h), h @ [replicate n []])"

text \<open>\<open>copy(dst, src)\<close> copies the first \<open>min(len(dst), len(src))\<close> elements.\<close>

definition copy_slice :: "heap \<Rightarrow> slice \<Rightarrow> slice \<Rightarrow> heap" where
  "copy_slice h dst src =
     (case dst of
        NilSlice \<Rightarrow> h
      | SliceAt a \<Rightarrow>
          (let k = min (len h dst) (len h src)
           in h[a := take k (contents h src) @ drop k (contents h dst)]))"

text \<open>\<open>cp := make([]string, len(captures)); copy(cp, captures)\<close>.\<close>

definition make_copy :: "heap \<Rightarrow> slice \<Rightarrow> slice \<times> heap" where
  "make_copy h captures =
     (let made = make_strings h (len h captures)
      in (fst made, copy_slice (snd made) (fst made) captures))"

text \<open>
  A run of the matcher returns, panics (an index or slice bound out of range) or does
  not return; the last is the outcome of a run that is cut off by its fuel.
\<close>

datatype 'a outcome = OutOfFuel | Panic | Return 'a

definition obind :: "'a outcome \<Rightarrow> ('a \<Rightarrow> 'b outcome) \<Rightarrow> 'b outcome" where
  "obind m f = (case m of OutOfFuel \<Rightarrow> OutOfFuel | Panic \<Rightarrow> Panic | Return x \<Rightarrow> f x)"

text \<open>\<open>s[i] = v\<close>.\<close>

definition store :: "heap \<Rightarrow> slice \<Rightarrow> int \<Rightarrow> gostring \<Rightarrow> heap outcome" where
  "store h s i v =
     (case s of
        NilSlice \<Rightarrow> Panic
      | SliceAt a \<Rightarrow>
          if 0 \<le> i \<and> nat i < len h s then Return (h[a := (h ! a)[nat i := v]]) else Panic)"

text \<open>\<open>string(input[lo:hi])\<close>.\<close>

definition substring :: "rune list \<Rightarrow> nat \<Rightarrow> nat \<Rightarrow> gostring outcome" where
  "substring input lo hi =
     (if lo \<le> hi \<and> hi \<le> length input
      then Return (string_of_runes (take (hi - lo) (drop lo input)))
      else Panic)"

section \<open>The matcher\<close>

text \<open>
  \<open>matchElementOnce\<close>, \<open>matchHereWithState\<close> and \<open>matchHereWithCaptures\<close> call each
  other; their loops are \<open>stateOneOrMoreLoop\<close> (the \<open>currentPos\<close> loop of the
  \<open>OneOrMoreMatcher\<close> case of \<open>matchHereWithState\<close>), \<open>stateAlternatives\<close> (its loop over
  the alternatives), \<open>capturesLoop\<close> (the \<open>patternPos\<close> loop of \<open>matchHereWithCaptures\<close>),
  \<open>capturesAlternatives\<close> and \<open>capturesOneOrMoreLoop\<close> (its \<open>for { }\<close> loop).  The first
  argument is the fuel: every call and every loop round takes one unit.  The parameter
  \<open>p\<close> of \<open>matchElementOnce\<close> is never read and is left out.  Each function takes the
  store and returns it with its results: a result \<open>r\<close> of \<open>matchElementOnce\<close> or
  \<open>matchHereWithState\<close> is \<open>((ok, pos, captures), store)\<close>, one of
  \<open>matchHereWithCaptures\<close> is \<open>((ok, pos), store)\<close>.
\<close>

abbreviation (input) r_ok :: "(bool \<times> 'a) \<times> heap \<Rightarrow> bool" where
  "r_ok r \<equiv> fst (fst r)"

abbreviation (input) r_pos :: "(bool \<times> nat \<times> slice) \<times> heap \<Rightarrow> nat" where
  "r_pos r \<equiv> fst (snd (fst r))"

abbreviation (input) r_captures :: "(bool \<times> nat \<times> slice) \<times> heap \<Rightarrow> slice" where
  "r_captures r \<equiv> snd (snd (fst r))"

abbreviation (input) c_pos :: "(bool \<times> nat) \<times> heap \<Rightarrow> nat" where
  "c_pos r \<equiv> snd (fst r)"

abbreviation (input) r_heap :: "'a \<times> heap \<Rightarrow> heap" where
  "r_heap r \<equiv> snd r"

function (sequential) matchElementOnce ::
    "nat \<Rightarrow> unicode \<Rightarrow> PatternElement \<Rightarrow> rune list \<Rightarrow> nat \<Rightarrow> slice \<Rightarrow> heap
      \<Rightarrow> ((bool \<times> nat \<times> slice) \<times> heap) outcome"
  and matchHereWithState ::
    "nat \<Rightarrow> unicode \<Rightarrow> Pattern \<Rightarrow> rune list \<Rightarrow> nat \<Rightarrow> slice \<Rightarrow> heap
      \<Rightarrow> ((bool \<times> nat \<times> slice) \<times> heap) outcome"
  and stateOneOrMoreLoop ::
    "nat \<Rightarrow> unicode \<Rightarrow> PatternElement \<Rightarrow> Pattern \<Rightarrow> rune list \<Rightarrow> nat \<Rightarrow> nat \<Rightarrow> slice \<Rightarrow> heap
      \<Rightarrow> ((bool \<times> nat \<times> slice) \<times> heap) outcome"
  and stateAlternatives ::
    "nat \<Rightarrow> unicode \<Rightarrow> Pattern list \<Rightarrow> Pattern \<Rightarrow> rune list \<Rightarrow> nat \<Rightarrow> slice \<Rightarrow> heap
      \<Rightarrow> ((bool \<times> nat \<times> slice) \<times> heap) outcome"
  and matchHereWithCaptures ::
    "nat \<Rightarrow> unicode \<Rightarrow> Pattern \<Rightarrow> rune list \<Rightarrow> nat \<Rightarrow> slice \<Rightarrow> heap
      \<Rightarrow> ((bool \<times> nat) \<times> heap) outcome"
  and capturesLoop ::
    "nat \<Rightarrow> unicode \<Rightarrow> Pattern \<Rightarrow> nat \<Rightarrow> rune list \<Rightarrow> nat \<Rightarrow> slice \<Rightarrow> heap
      \<Rightarrow> ((bool \<times> nat) \<times> heap) outcome"
  and capturesAlternatives ::
    "nat \<Rightarrow> unicode \<Rightarrow> Pattern list \<Rightarrow> Pattern \<Rightarrow> rune list \<Rightarrow> nat \<Rightarrow> slice \<Rightarrow> heap
      \<Rightarrow> ((bool \<times> nat) \<times> heap) outcome"
  and capturesOneOrMoreLoop ::
    "nat \<Rightarrow> unicode \<Rightarrow> PatternElement \<Rightarrow> Pattern \<Rightarrow> rune list \<Rightarrow> nat \<Rightarrow> slice \<Rightarrow> slice \<Rightarrow> heap
      \<Rightarrow> ((bool \<times> nat) \<times> heap) outcome"
where
  "matchElementOnce 0 U element input pos captures h = OutOfFuel"
| "matchElementOnce (Suc n) U element input pos captures h =
     (case element of
        GroupMatcher _ _ \<Rightarrow>
          (let copied = make_copy h captures;
               cp = fst copied
           in obind (matchHereWithCaptures n U (groupPattern element) input pos cp (snd copied))
                (\<lambda>r. if r_ok r then
                       obind (substring input pos (c_pos r))
                         (\<lambda>text. obind (store (r_heap r) cp (groupIndex element - 1) text)
                            (\<lambda>h3. Return ((True, c_pos r, cp), h3)))
                     else Return ((False, 0, NilSlice), r_heap r)))
      | BackReferenceMatcher index \<Rightarrow>
          if index - 1 < 0 \<or> index - 1 \<ge> int (len h captures)
          then Return ((False, 0, NilSlice), h)
          else
            (let capStr = contents h captures ! nat (index - 1)
             in if capStr = [] then Return ((False, 0, NilSlice), h)
                else
                  (let capRunes = runes_of_string capStr
                   in if pos + length capRunes > length input
                      then Return ((False, 0, NilSlice), h)
                      else if take (length capRunes) (drop pos input) = capRunes
                      then Return ((True, pos + length capRunes, captures), h)
                      else Return ((False, 0, NilSlice), h)))
      | _ \<Rightarrow>
          if pos \<ge> length input then Return ((False, 0, NilSlice), h)
          else if \<not> Match_rune U element (input ! pos) then Return ((False, 0, NilSlice), h)
          else Return ((True, pos + 1, captures), h))"
| "matchHereWithState 0 U p input pos captures h = OutOfFuel"
| "matchHereWithState (Suc n) U p input pos captures h =
     (if elements p = [] then
        (if \<not> endAnchor p \<or> pos = length input then Return ((True, pos, captures), h)
         else Return ((False, pos, captures), h))
      else
        (let element = hd (elements p);
             remaining = Pattern (tl (elements p)) False (endAnchor p) (groupCount p)
         in case element of
              GroupMatcher _ _ \<Rightarrow>
                obind (matchHereWithState n U (groupPattern element) input pos captures h)
                  (\<lambda>r. if r_ok r then
                         obind (substring input pos (r_pos r))
                           (\<lambda>text. obind (store (r_heap r) captures (groupIndex element - 1) text)
                              (\<lambda>h2. obind (matchHereWithState n U remaining input (r_pos r)
                                              captures h2)
                                 (\<lambda>r2. if r_ok r2 then Return r2
                                       else Return ((False, pos, captures), r_heap r2))))
                       else Return ((False, pos, captures), r_heap r))
            | BackReferenceMatcher index \<Rightarrow>
                if index < 1 \<or> index > int (len h captures)
                then Return ((False, pos, captures), h)
                else
                  (let captured = contents h captures ! nat (index - 1)
                   in if captured = [] then Return ((False, pos, captures), h)
                      else if pos + length captured > length input
                      then Return ((False, pos, captures), h)
                      else if string_of_runes (take (length captured) (drop pos input))
                              \<noteq> captured
                      then Return ((False, pos, captures), h)
                      else matchHereWithState n U remaining input (pos + length captured)
                             captures h)
            | OneOrMoreMatcher matcher \<Rightarrow>
                obind (matchElementOnce n U matcher input pos captures h)
                  (\<lambda>r. if \<not> r_ok r then Return ((False, pos, captures), r_heap r)
                       else stateOneOrMoreLoop n U matcher remaining input (r_pos r) (r_pos r)
                              (r_captures r) (r_heap r))
            | ZeroOrOneMatcher matcher \<Rightarrow>
                obind (matchHereWithState n U remaining input pos captures h)
                  (\<lambda>r. if r_ok r then Return r
                       else
                         obind (matchElementOnce n U matcher input pos captures (r_heap r))
                           (\<lambda>r2. if r_ok r2
                                 then matchHereWithState n U remaining input (r_pos r2)
                                        (r_captures r2) (r_heap r2)
                                 else Return ((False, pos, captures), r_heap r2)))
            | AlternationMatcher alternatives \<Rightarrow>
                stateAlternatives n U alternatives remaining input pos captures h
            | _ \<Rightarrow>
                obind (matchElementOnce n U element input pos captures h)
                  (\<lambda>r. if r_ok r
                       then matchHereWithState n U remaining input (r_pos r) (r_captures r)
                              (r_heap r)
                       else Return ((False, pos, captures), r_heap r))))"
| "stateOneOrMoreLoop 0 U matcher remaining input currentPos pos captures h = OutOfFuel"
| "stateOneOrMoreLoop (Suc n) U matcher remaining input currentPos pos captures h =
     (if currentPos \<le> length input then
        obind (matchHereWithState n U remaining input currentPos captures h)
          (\<lambda>r. if r_ok r then Return r
               else if currentPos < length input \<and> Match_rune U matcher (input ! currentPos)
               then stateOneOrMoreLoop n U matcher remaining input (currentPos + 1)
                      (currentPos + 1) captures (r_heap r)
               else Return ((False, pos, captures), r_heap r))
      else Return ((False, pos, captures), h))"
| "stateAlternatives 0 U alternatives remaining input pos captures h = OutOfFuel"
| "stateAlternatives (Suc n) U alternatives remaining input pos captures h =
     (if alternatives = [] then Return ((False, pos, captures), h)
      else
        obind (matchHereWithState n U (hd alternatives) input pos captures h)
          (\<lambda>r. if r_ok r
               then matchHereWithState n U remaining input (r_pos r) (r_captures r) (r_heap r)
               else stateAlternatives n U (tl alternatives) remaining input pos captures
                      (r_heap r)))"
| "matchHereWithCaptures 0 U p input pos captures h = OutOfFuel"
| "matchHereWithCaptures (Suc n) U p input pos captures h =
     capturesLoop n U p 0 input pos captures h"
| "capturesLoop 0 U p patternPos input inputPos captures h = OutOfFuel"
| "capturesLoop (Suc n) U p patternPos input inputPos captures h =
     (if patternPos < length (elements p) then
        (let element = elements p ! patternPos;
             remainingPattern =
               Pattern (drop (patternPos + 1) (elements p)) False (endAnchor p) (groupCount p)
         in case element of
              AlternationMatcher alternatives \<Rightarrow>
                capturesAlternatives n U alternatives remainingPattern input inputPos captures h
            | OneOrMoreMatcher matcher \<Rightarrow>
                (let copied = make_copy h captures;
                     cp = fst copied
                 in obind (matchElementOnce n U matcher input inputPos cp (snd copied))
                      (\<lambda>r. if \<not> r_ok r then Return ((False, 0), r_heap r)
                           else capturesOneOrMoreLoop n U matcher remainingPattern input
                                  (r_pos r) cp captures
                                  (copy_slice (r_heap r) cp (r_captures r))))
            | ZeroOrOneMatcher matcher \<Rightarrow>
                (let copiedZero = make_copy h captures;
                     cpZero = fst copiedZero
                 in obind (matchHereWithCaptures n U remainingPattern input inputPos cpZero
                             (snd copiedZero))
                      (\<lambda>r. if r_ok r
                           then Return ((True, c_pos r), copy_slice (r_heap r) captures cpZero)
                           else
                             (let copied = make_copy (r_heap r) captures;
                                  cp = fst copied
                              in obind (matchElementOnce n U matcher input inputPos cp
                                          (snd copied))
                                   (\<lambda>r2. if r_ok r2 then
                                           obind (matchHereWithCaptures n U remainingPattern
                                                    input (r_pos r2) (r_captures r2)
                                                    (r_heap r2))
                                             (\<lambda>r3. if r_ok r3
                                                   then Return ((True, c_pos r3),
                                                          copy_slice (r_heap r3) captures
                                                            (r_captures r2))
                                                   else Return ((False, 0), r_heap r3))
                                         else Return ((False, 0), r_heap r2)))))
            | _ \<Rightarrow>
                obind (matchElementOnce n U element input inputPos captures h)
                  (\<lambda>r. if \<not> r_ok r then Return ((False, 0), r_heap r)
                       else capturesLoop n U p (patternPos + 1) input (r_pos r) captures
                              (copy_slice (r_heap r) captures (r_captures r))))
      else if endAnchor p then Return ((inputPos = length input, inputPos), h)
      else Return ((True, inputPos), h))"
| "capturesAlternatives 0 U alternatives remainingPattern input inputPos captures h = OutOfFuel"
| "capturesAlternatives (Suc n) U alternatives remainingPattern input inputPos captures h =
     (if alternatives = [] then Return ((False, 0), h)
      else
        (let copied = make_copy h captures;
             cp = fst copied
         in obind (matchHereWithCaptures n U (hd alternatives) input inputPos cp (snd copied))
              (\<lambda>r. if r_ok r then
                     obind (matchHereWithCaptures n U remainingPattern input (c_pos r) cp
                              (r_heap r))
                       (\<lambda>r2. if r_ok r2
                             then Return ((True, c_pos r2), copy_slice (r_heap r2) captures cp)
                             else capturesAlternatives n U (tl alternatives) remainingPattern
                                    input inputPos captures (r_heap r2))
                   else capturesAlternatives n U (tl alternatives) remainingPattern input
                          inputPos captures (r_heap r))))"
| "capturesOneOrMoreLoop 0 U matcher remainingPattern input inputPos cp captures h = OutOfFuel"
| "capturesOneOrMoreLoop (Suc n) U matcher remainingPattern input inputPos cp captures h =
     (let copied = make_copy h cp;
          tryCp = fst copied
      in obind (matchHereWithCaptures n U remainingPattern input inputPos tryCp (snd copied))
           (\<lambda>r. if r_ok r
                then Return ((True, c_pos r), copy_slice (r_heap r) captures tryCp)
                else
                  obind (matchElementOnce n U matcher input inputPos cp (r_heap r))
                    (\<lambda>r2. if \<not> r_ok r2 then Return ((False, 0), r_heap r2)
                          else capturesOneOrMoreLoop n U matcher remainingPattern input
                                 (r_pos r2) cp captures
                                 (copy_slice (r_heap r2) cp (r_captures r2)))))"
  by pat_completeness simp_all
termination
  by (relation "measure (case_sum (case_sum (case_sum fst fst) (case_sum fst fst))
                  (case_sum (case_sum fst fst) (case_sum fst fst)))") simp_all

declare matchElementOnce.simps [simp del] matchHereWithState.simps [simp del]
  stateOneOrMoreLoop.simps [simp del] stateAlternatives.simps [simp del]
  matchHereWithCaptures.simps [simp del] capturesLoop.simps [simp del]
  capturesAlternatives.simps [simp del] capturesOneOrMoreLoop.simps [simp del]

text \<open>
  \<open>Match\<close>: one attempt at position 0 for an anchored pattern, otherwise the loop over
  the start positions \<open>0 .. len(input)\<close>, here \<open>matchFrom\<close>, with a fresh capture slice
  for every attempt.  Only the boolean leaves \<open>Match\<close>.
\<close>

function matchFrom ::
    "nat \<Rightarrow> unicode \<Rightarrow> Pattern \<Rightarrow> rune list \<Rightarrow> nat \<Rightarrow> heap \<Rightarrow> (bool \<times> heap) outcome" where
  "matchFrom n U p input startPos h =
     (if startPos \<le> length input then
        (let made = make_strings h (groupCount p)
         in obind (matchHereWithState n U p input startPos (fst made) (snd made))
              (\<lambda>r. if r_ok r then Return (True, r_heap r)
                   else matchFrom n U p input (startPos + 1) (r_heap r)))
      else Return (False, h))"
  by pat_completeness simp_all
termination
  by (relation "measure (\<lambda>(n, U, p, input, startPos, h). Suc (length input) - startPos)")
    simp_all

declare matchFrom.simps [simp del]

definition Match :: "nat \<Rightarrow> unicode \<Rightarrow> Pattern \<Rightarrow> rune list \<Rightarrow> bool outcome" where
  "Match n U p input =
     (if startAnchor p then
        (let made = make_strings [] (groupCount p)
         in obind (matchHereWithState n U p input 0 (fst made) (snd made))
              (\<lambda>r. Return (r_ok r)))
      else obind (matchFrom n U p input 0 []) (\<lambda>r. Return (fst r)))"

text \<open>Compile, then match: the engine as the driver uses it.\<close>

definition grep ::
    "nat \<Rightarrow> unicode \<Rightarrow> rune list \<Rightarrow> rune list \<Rightarrow> CompileError + bool outcome" where
  "grep n U pattern input =
     (case ParsePattern pattern of
        Inl err \<Rightarrow> Inl err
      | Inr p \<Rightarrow> Inr (Match n U p input))"

section \<open>Running the model on concrete inputs\<close>

text \<open>
  The rules below let the simplifier run the compiler and the matcher on a concrete
  pattern and input: the recursion equations with the fuel written as a numeral, and
  the rule that the first argument of \<open>obind\<close> is evaluated before its continuation.
\<close>

lemma obind_weak_cong: "m = m' \<Longrightarrow> obind m f = obind m' f"
  by simp

lemma obind_simps [simp]:
  "obind OutOfFuel f = OutOfFuel"
  "obind Panic f = Panic"
  "obind (Return x) f = f x"
  by (simp_all add: obind_def)

lemmas matcher_numeral =
  matchElementOnce.simps(2) [of "pred_numeral k", folded numeral_eq_Suc]
  matchHereWithState.simps(2) [of "pred_numeral k", folded numeral_eq_Suc]
  stateOneOrMoreLoop.simps(2) [of "pred_numeral k", folded numeral_eq_Suc]
  stateAlternatives.simps(2) [of "pred_numeral k", folded numeral_eq_Suc]
  matchHereWithCaptures.simps(2) [of "pred_numeral k", folded numeral_eq_Suc]
  capturesLoop.simps(2) [of "pred_numeral k", folded numeral_eq_Suc]
  capturesAlternatives.simps(2) [of "pred_numeral k", folded numeral_eq_Suc]
  capturesOneOrMoreLoop.simps(2) [of "pred_numeral k", folded numeral_eq_Suc]
  for k

lemmas heap_simps =
  make_strings_def make_copy_def copy_slice_def contents_def len_def store_def substring_def
  string_of_runes_def encodeRune_def

lemmas parse_simps =
  grep_def ParsePattern_def parsePatternInternal.simps parseElements.simps
  parseAlternativesFrom.simps stripStartAnchor_def stripEndAnchor_def groupInner_def
  escapeAtom_def setNegated_def setChars_def setRest_def quantify_def

lemmas run_simps = parse_simps Match_def matchFrom.simps matcher_numeral heap_simps Let_def

text \<open>For the examples, the two Unicode tables cut down to ASCII.\<close>

definition asciiTables :: unicode where
  "asciiTables =
     \<lparr>IsDigit = (\<lambda>r. 48 \<le> r \<and> r \<le> 57),
      IsLetter = (\<lambda>r. (65 \<le> r \<and> r \<le> 90) \<or> (97 \<le> r \<and> r \<le> 122))\<rparr>"

section \<open>End-to-end scenario 5\<close>

text \<open>
  C2.  The spec's scenario 5 expects the pattern \<open>a(b|c)+d\<close> to match the input
  \<open>abcbd\<close>.  The code compiles the pattern and \<open>Match\<close> returns false: after the first
  occurrence of the group, the loop of the \<open>OneOrMoreMatcher\<close> case of
  \<open>matchHereWithState\<close> asks \<open>GroupMatcher.Match\<close> for one more occurrence, which is
  always false.
\<close>

theorem C2_scenario5_returns_false:
  "grep 30 U [97, 40, 98, 124, 99, 41, 43, 100] [97, 98, 99, 98, 100] = Inr (Return False)"
  by (simp add: run_simps cong: obind_weak_cong let_weak_cong)

section \<open>Backreferences and captured text\<close>

text \<open>
  C4.  A backreference is to match the captured text rune for rune.  The
  \<open>BackReferenceMatcher\<close> case of \<open>matchHereWithState\<close> takes \<open>len(captured)\<close>, the number
  of bytes of the captured string, as the number of runes to compare.  For a capture
  with a rune outside ASCII the two differ: the pattern \<open>(e-acute)\1\<close> (the rune 233, two
  bytes in UTF-8) does not match the input of two such runes, while the same pattern
  over an ASCII letter matches.  \<open>matchElementOnce\<close> converts the capture with
  \<open>[]rune(capStr)\<close> and counts runes.
\<close>

theorem C4_backreference_counts_bytes:
  "grep 30 U [40, 233, 41, 92, 49] [233, 233] = Inr (Return False)
   \<and> grep 30 U [40, 97, 41, 92, 49] [97, 97] = Inr (Return True)"
  by (simp add: run_simps cong: obind_weak_cong let_weak_cong)

section \<open>Captures of abandoned branches\<close>

text \<open>
  C5.  Captures written on a branch that fails are to be discarded.  In
  \<open>matchHereWithState\<close> the alternatives and the group case work on the caller's
  capture slice itself: a write made by a failed branch stays.  For the pattern
  \<open>((a)b|ac)\2\<close> and the input \<open>aca\<close> the first alternative captures \<open>a\<close> in group 2 and
  fails at \<open>b\<close>; the second alternative matches \<open>ac\<close> without group 2, and \<open>\2\<close> then
  matches the stale capture, so \<open>Match\<close> returns true.
\<close>

theorem C5_stale_capture_is_visible:
  "grep 30 U [40, 40, 97, 41, 98, 124, 97, 99, 41, 92, 50] [97, 99, 97] = Inr (Return True)"
  by (simp add: run_simps cong: obind_weak_cong let_weak_cong)

section \<open>Backreferences to groups that do not exist\<close>

text \<open>When no attempt of \<open>Match\<close> succeeds, its loop runs to the end and returns false.\<close>

lemma len_make_strings [simp]:
  "len (snd (make_strings h k)) (fst (make_strings h k)) = k"
  by (simp add: make_strings_def len_def contents_def)

lemma matchFrom_all_fail:
  assumes "\<And>pos h. \<exists>pos' caps' h'.
      matchHereWithState n U p input pos (fst (make_strings h (groupCount p)))
        (snd (make_strings h (groupCount p))) = Return ((False, pos', caps'), h')"
  shows "\<exists>h'. matchFrom n U p input startPos h = Return (False, h')"
proof (induction "Suc (length input) - startPos" arbitrary: startPos h)
  case 0
  then show ?case by (simp add: matchFrom.simps)
next
  case (Suc k)
  then have le: "startPos \<le> length input" by simp
  obtain pos' caps' h' where
    r: "matchHereWithState n U p input startPos (fst (make_strings h (groupCount p)))
          (snd (make_strings h (groupCount p))) = Return ((False, pos', caps'), h')"
    using assms by blast
  have "k = Suc (length input) - (startPos + 1)" using Suc(2) by simp
  from Suc(1) [OF this, of h']
  obtain h'' where "matchFrom n U p input (startPos + 1) h' = Return (False, h'')"
    by blast
  with le r show ?case
    by (subst matchFrom.simps) (simp add: Let_def)
qed

text \<open>
  C10.  A backreference whose index exceeds the length of the capture slice fails,
  in \<open>matchHereWithState\<close> and in \<open>matchElementOnce\<close>, without reading the slice, without
  a panic and without a change of the store; and a pattern that is one backreference
  \<open>\1\<close> .. \<open>\9\<close> alone (so with no group at all) returns false on every input, for every
  amount of fuel that lets the matcher start.
\<close>

theorem C10_backreference_out_of_range:
  "(int (len h captures) < idx \<longrightarrow>
      matchHereWithState (Suc n) U (Pattern (BackReferenceMatcher idx # rest) sa ea gc)
        input pos captures h = Return ((False, pos, captures), h)
      \<and> matchElementOnce (Suc n) U (BackReferenceMatcher idx) input pos captures h
          = Return ((False, 0, NilSlice), h))
   \<and> (ch_1 \<le> d \<and> d \<le> ch_9 \<longrightarrow> grep (Suc n) U [ch_backslash, d] input = Inr (Return False))"
proof (intro conjI impI)
  assume "int (len h captures) < idx"
  then show "matchHereWithState (Suc n) U (Pattern (BackReferenceMatcher idx # rest) sa ea gc)
        input pos captures h = Return ((False, pos, captures), h)"
    by (simp add: matchHereWithState.simps)
next
  assume "int (len h captures) < idx"
  then show "matchElementOnce (Suc n) U (BackReferenceMatcher idx) input pos captures h
          = Return ((False, 0, NilSlice), h)"
    by (simp add: matchElementOnce.simps)
next
  assume d: "ch_1 \<le> d \<and> d \<le> ch_9"
  let ?p = "Pattern [BackReferenceMatcher (d - ch_0)] False False 0"
  from d have parse: "ParsePattern [ch_backslash, d] = Inr ?p"
    by (simp add: parse_simps)
  have one: "\<exists>pos' caps' h'.
      matchHereWithState (Suc n) U ?p input pos (fst (make_strings h (groupCount ?p)))
        (snd (make_strings h (groupCount ?p))) = Return ((False, pos', caps'), h')" for pos h
    using d by (simp add: matchHereWithState.simps)
  from matchFrom_all_fail [of "Suc n" U ?p input 0 "[]", OF one]
  obtain h' where "matchFrom (Suc n) U ?p input 0 [] = Return (False, h')" by blast
  with parse show "grep (Suc n) U [ch_backslash, d] input = Inr (Return False)"
    by (simp add: grep_def Match_def)
qed

theorem C10_backreference_out_of_range_witness:
  "int (len [[]] (SliceAt 0)) < 1
   \<and> matchHereWithState (Suc 0) asciiTables (Pattern [BackReferenceMatcher 1] False False 0)
        [97] 0 (SliceAt 0) [[]] = Return ((False, 0, SliceAt 0), [[]])
   \<and> matchElementOnce (Suc 0) asciiTables (BackReferenceMatcher 1) [97] 0 (SliceAt 0) [[]]
        = Return ((False, 0, NilSlice), [[]])
   \<and> ch_1 \<le> (49::int) \<and> (49::int) \<le> ch_9
   \<and> grep (Suc 0) asciiTables [ch_backslash, 49] [97] = Inr (Return False)"
  using C10_backreference_out_of_range
    [of "[[]]" "SliceAt 0" 1 0 asciiTables "[]" False False 0 "[97]" 0 49]
  by (simp add: len_def contents_def)

section \<open>Patterns of single-rune elements\<close>










section \<open>The optional element\<close>








section \<open>The repetition\<close>











section \<open>Compiling text without parentheses\<close>














section \<open>Anchors of sub-patterns\<close>




section \<open>Termination of the matcher\<close>

text \<open>
  The \<open>for { }\<close> loop of the \<open>OneOrMoreMatcher\<close> case of \<open>matchHereWithCaptures\<close> ends
  when the rest of the pattern matches or when one more occurrence of the repeated
  element fails.  An occurrence that consumes nothing succeeds again at the same position,
  so when the rest fails there the loop has no exit.  The pattern \<open>((a?)+b)+\<close> on the
  empty input reaches that loop: the outer \<open>+\<close> over a group sends the group body to
  \<open>matchHereWithCaptures\<close>, the body's \<open>(a?)+\<close> matches the empty string, and \<open>b\<close> fails.
\<close>

lemma make_copy_valid:
  "a < length h \<Longrightarrow> make_copy h (SliceAt a) = (SliceAt (length h), h @ [h ! a])"
  by (simp add: heap_simps Let_def nth_append)

lemma copy_slice_same_length:
  "a < length h \<Longrightarrow> b < length h \<Longrightarrow> length (h ! a) = length (h ! b) \<Longrightarrow>
   copy_slice h (SliceAt a) (SliceAt b) = h[a := h ! b]"
  by (simp add: heap_simps Let_def)

abbreviation (input) optionalA :: Pattern where
  "optionalA \<equiv> Pattern [ZeroOrOneMatcher (LiteralMatcher 97)] False False 2"

abbreviation (input) needsB :: Pattern where
  "needsB \<equiv> Pattern [LiteralMatcher 98] False False 2"

abbreviation (input) innerLoop :: Pattern where
  "innerLoop \<equiv> Pattern [OneOrMoreMatcher (GroupMatcher 2 optionalA), LiteralMatcher 98] False False 2"

lemma needsB_fails:
  "matchHereWithCaptures n U needsB [] 0 c h = OutOfFuel
   \<or> matchHereWithCaptures n U needsB [] 0 c h = Return ((False, 0), h)"
proof (cases n)
  case 0
  then show ?thesis by (simp add: matchHereWithCaptures.simps)
next
  case (Suc n1)
  show ?thesis
  proof (cases n1)
    case 0
    with Suc show ?thesis by (simp add: matchHereWithCaptures.simps capturesLoop.simps)
  next
    case (Suc n2)
    with \<open>n = Suc n1\<close> show ?thesis
      by (cases n2)
         (simp_all add: matchHereWithCaptures.simps capturesLoop.simps matchElementOnce.simps)
  qed
qed

lemma optionalA_matches_empty:
  assumes "c < length g"
  shows "matchHereWithCaptures n U optionalA [] 0 (SliceAt c) g = OutOfFuel
   \<or> matchHereWithCaptures n U optionalA [] 0 (SliceAt c) g = Return ((True, 0), g @ [g ! c])"
proof -
  have cs: "copy_slice (g @ [g ! c]) (SliceAt c) (SliceAt (length g)) = g @ [g ! c]"
    using assms by (simp add: copy_slice_same_length nth_append list_update_append)
  consider "n = 0" | "n = 1" | "n = 2" | "n = 3" | k where "n = Suc (Suc (Suc (Suc k)))"
    by (metis One_nat_def Suc_1 not0_implies_Suc numeral_3_eq_3)
  then show ?thesis
  proof cases
    case 5
    with assms cs show ?thesis
      by (simp add: matchHereWithCaptures.simps capturesLoop.simps make_copy_valid)
  qed (simp_all add: matchHereWithCaptures.simps capturesLoop.simps make_copy_valid assms
        numeral_eq_Suc)
qed


lemma optionalGroup_matches_empty:
  assumes "a < length h" and "length (h ! a) = 2"
  shows "matchElementOnce n U (GroupMatcher 2 optionalA) [] 0 (SliceAt a) h = OutOfFuel
   \<or> matchElementOnce n U (GroupMatcher 2 optionalA) [] 0 (SliceAt a) h
       = Return ((True, 0, SliceAt (length h)), h @ [(h ! a)[1 := []], h ! a])"
proof (cases n)
  case 0
  then show ?thesis by (simp add: matchElementOnce.simps)
next
  case (Suc n1)
  have body: "matchHereWithCaptures n1 U optionalA [] 0 (SliceAt (length h)) (h @ [h ! a]) = OutOfFuel
     \<or> matchHereWithCaptures n1 U optionalA [] 0 (SliceAt (length h)) (h @ [h ! a])
         = Return ((True, 0), (h @ [h ! a]) @ [(h @ [h ! a]) ! length h])"
    by (rule optionalA_matches_empty) simp
  then show ?thesis
  proof
    assume "matchHereWithCaptures n1 U optionalA [] 0 (SliceAt (length h)) (h @ [h ! a]) = OutOfFuel"
    with Suc assms show ?thesis
      by (simp add: matchElementOnce.simps make_copy_valid)
  next
    assume "matchHereWithCaptures n1 U optionalA [] 0 (SliceAt (length h)) (h @ [h ! a])
         = Return ((True, 0), (h @ [h ! a]) @ [(h @ [h ! a]) ! length h])"
    with Suc assms show ?thesis
      by (simp add: matchElementOnce.simps make_copy_valid substring_def store_def len_def
            contents_def nth_append list_update_append string_of_runes_def)
  qed
qed

lemma innerLoop_never_returns:
  "a < length h \<Longrightarrow> length (h ! a) = 2 \<Longrightarrow>
   capturesOneOrMoreLoop n U (GroupMatcher 2 optionalA) needsB [] 0 (SliceAt a) captures h
     = OutOfFuel"
proof (induction n arbitrary: h)
  case 0
  show ?case by (simp add: capturesOneOrMoreLoop.simps)
next
  case (Suc n)
  let ?h1 = "h @ [h ! a]"
  have a1: "a < length ?h1" and l1: "length (?h1 ! a) = 2"
    using Suc.prems by (simp_all add: nth_append)
  from needsB_fails [of n U "SliceAt (length h)" ?h1]
  show ?case
  proof
    assume "matchHereWithCaptures n U needsB [] 0 (SliceAt (length h)) ?h1 = OutOfFuel"
    with Suc.prems show ?thesis
      by (simp add: capturesOneOrMoreLoop.simps make_copy_valid)
  next
    assume rest: "matchHereWithCaptures n U needsB [] 0 (SliceAt (length h)) ?h1
                    = Return ((False, 0), ?h1)"
    from optionalGroup_matches_empty [OF a1 l1, of n U]
    show ?thesis
    proof
      assume "matchElementOnce n U (GroupMatcher 2 optionalA) [] 0 (SliceAt a) ?h1 = OutOfFuel"
      with rest Suc.prems show ?thesis
        by (simp add: capturesOneOrMoreLoop.simps make_copy_valid)
    next
      let ?h2 = "?h1 @ [(?h1 ! a)[1 := []], ?h1 ! a]"
      let ?h3 = "copy_slice ?h2 (SliceAt a) (SliceAt (length ?h1))"
      assume once: "matchElementOnce n U (GroupMatcher 2 optionalA) [] 0 (SliceAt a) ?h1
                      = Return ((True, 0, SliceAt (length ?h1)), ?h2)"
      have "a < length ?h3" and "length (?h3 ! a) = 2"
        using Suc.prems by (simp_all add: heap_simps Let_def nth_append)
      then have "capturesOneOrMoreLoop n U (GroupMatcher 2 optionalA) needsB [] 0 (SliceAt a)
                   captures ?h3 = OutOfFuel"
        by (rule Suc.IH)
      with rest once Suc.prems show ?thesis
        by (simp add: capturesOneOrMoreLoop.simps make_copy_valid)
    qed
  qed
qed


lemma innerLoop_pattern_never_returns:
  assumes "a < length h" and "length (h ! a) = 2"
  shows "matchHereWithCaptures n U innerLoop [] 0 (SliceAt a) h = OutOfFuel"
proof (cases n)
  case 0
  then show ?thesis by (simp add: matchHereWithCaptures.simps)
next
  case (Suc n1)
  show ?thesis
  proof (cases n1)
    case 0
    with Suc show ?thesis by (simp add: matchHereWithCaptures.simps capturesLoop.simps)
  next
    case (Suc n2)
    let ?h1 = "h @ [h ! a]"
    let ?h2 = "?h1 @ [(?h1 ! length h)[1 := []], ?h1 ! length h]"
    let ?h3 = "copy_slice ?h2 (SliceAt (length h)) (SliceAt (length ?h1))"
    have a1: "length h < length ?h1" and l1: "length (?h1 ! length h) = 2"
      using assms by simp_all
    have loop: "capturesOneOrMoreLoop n2 U (GroupMatcher 2 optionalA) needsB [] 0
                  (SliceAt (length h)) (SliceAt a) ?h3 = OutOfFuel"
      by (rule innerLoop_never_returns) (simp_all add: heap_simps Let_def nth_append assms)
    from optionalGroup_matches_empty [OF a1 l1, of n2 U]
    show ?thesis
    proof
      assume "matchElementOnce n2 U (GroupMatcher 2 optionalA) [] 0 (SliceAt (length h)) ?h1
                = OutOfFuel"
      with Suc \<open>n = Suc n1\<close> assms show ?thesis
        by (simp add: matchHereWithCaptures.simps capturesLoop.simps make_copy_valid)
    next
      assume "matchElementOnce n2 U (GroupMatcher 2 optionalA) [] 0 (SliceAt (length h)) ?h1
                = Return ((True, 0, SliceAt (length ?h1)), ?h2)"
      with loop Suc \<open>n = Suc n1\<close> assms show ?thesis
        by (simp add: matchHereWithCaptures.simps capturesLoop.simps make_copy_valid)
    qed
  qed
qed

lemma outerLoop_never_returns:
  "matchHereWithState n U
     (Pattern [OneOrMoreMatcher (GroupMatcher 1 innerLoop)] False False 2) [] 0 (SliceAt 0)
     [[[], []]] = OutOfFuel"
proof (cases n)
  case 0
  then show ?thesis by (simp add: matchHereWithState.simps)
next
  case (Suc n1)
  show ?thesis
  proof (cases n1)
    case 0
    with Suc show ?thesis by (simp add: matchHereWithState.simps matchElementOnce.simps)
  next
    case (Suc n2)
    have "matchHereWithCaptures n2 U innerLoop [] 0 (SliceAt 1) [[[], []], [[], []]] = OutOfFuel"
      by (rule innerLoop_pattern_never_returns) simp_all
    with Suc \<open>n = Suc n1\<close> show ?thesis
      by (simp add: matchHereWithState.simps matchElementOnce.simps heap_simps Let_def)
  qed
qed

text \<open>
  Claim C6 says that \<open>Match\<close> returns a boolean for every compiled pattern and every
  input.  For the pattern \<open>((a?)+b)+\<close>, which compiles, and the empty input, the run is
  still going when its fuel is used up, whatever the fuel: \<open>Match\<close> does not return.
\<close>

theorem C6_match_does_not_return:
  "grep n U [40, 40, 97, 63, 41, 43, 98, 41, 43] [] = Inr OutOfFuel"
proof -
  have "ParsePattern [40, 40, 97, 63, 41, 43, 98, 41, 43]
          = Inr (Pattern [OneOrMoreMatcher (GroupMatcher 1 innerLoop)] False False 2)"
    by (simp add: parse_simps Let_def cong: let_weak_cong)
  moreover have "replicate 2 [] = [[], []::gostring]"
    by (simp add: numeral_2_eq_2)
  ultimately show ?thesis
    using outerLoop_never_returns [of n U]
    by (simp add: grep_def Match_def matchFrom.simps heap_simps Let_def)
qed

end
